theory Spec2Isabelle
  imports Main "HOL-Library.Word"
begin

section \<open>JavaScript values used by the client\<close>

text \<open>
  A JavaScript string is a sequence of 16-bit code units. String literals of the source
  are ASCII; \<open>js\<close> turns an ASCII literal into its code units.
\<close>

type_synonym js_char = "16 word"
type_synonym js_string = "js_char list"

definition js :: "string \<Rightarrow> js_string" where
  "js s = map of_char s"

text \<open>
  An object whose property values are strings: a property that is absent reads as
  \<open>undefined\<close>, which is \<open>None\<close> here. \<open>{...o, [name]: value}\<close> is
  \<open>o(name \<mapsto> value)\<close>.
\<close>

type_synonym js_object = "js_string \<rightharpoonup> js_string"

text \<open>
  \<open>String.prototype.trim\<close> removes leading and trailing WhiteSpace and LineTerminator
  code points (ECMAScript: TAB, VT, FF, SP, NBSP, ZWNBSP, the Unicode space separators,
  LF, CR, LS, PS). All of them are single code units.
\<close>

definition isWhiteSpace :: "js_char \<Rightarrow> bool" where
  "isWhiteSpace c \<longleftrightarrow>
     c = 0x9 \<or> c = 0xA \<or> c = 0xB \<or> c = 0xC \<or> c = 0xD \<or> c = 0x20 \<or> c = 0xA0 \<or>
     c = 0x1680 \<or> (0x2000 \<le> c \<and> c \<le> 0x200A) \<or> c = 0x2028 \<or> c = 0x2029 \<or>
     c = 0x202F \<or> c = 0x205F \<or> c = 0x3000 \<or> c = 0xFEFF"

definition trim :: "js_string \<Rightarrow> js_string" where
  "trim s = rev (dropWhile isWhiteSpace (rev (dropWhile isWhiteSpace s)))"

text \<open>
  \<open>a || b\<close> on a string that may be undefined: \<open>undefined\<close> and the empty string
  are falsy, every other string is truthy.
\<close>

definition js_or :: "js_string option \<Rightarrow> js_string \<Rightarrow> js_string" where
  "js_or a b = (case a of None \<Rightarrow> b | Some s \<Rightarrow> if s = [] then b else s)"

text \<open>A template literal prints \<open>undefined\<close> for an undefined value.\<close>

definition template :: "js_string option \<Rightarrow> js_string" where
  "template v = (case v of None \<Rightarrow> js ''undefined'' | Some s \<Rightarrow> s)"

section \<open>Client: state, requests, responses\<close>

text \<open>
  The four \<open>useState\<close> cells of \<open>App\<close>. A handler reads the values of the render it
  was created in and writes through the setters.
\<close>

record app_state =
  books :: "js_object list"
  newBook :: js_object
  loading :: bool
  error :: js_string

definition emptyBook :: js_object where
  "emptyBook = [js ''title'' \<mapsto> [], js ''author'' \<mapsto> [], js ''description'' \<mapsto> []]"

definition initial_state :: app_state where
  "initial_state = \<lparr>books = [], newBook = emptyBook, loading = False, error = []\<rparr>"

datatype http_method = GET | POST | DELETE

text \<open>The request configuration axios builds for a call and hands to the interceptors.\<close>

record config =
  req_method :: http_method
  url :: js_string
  body :: "js_object option"
  headers :: js_object

text \<open>
  What \<open>catch (err)\<close> receives from a failed axios call: \<open>err.response\<close> is undefined
  when no response arrived, \<open>response.data\<close> may be undefined, and \<open>data.message\<close> too.
\<close>

record http_response =
  data :: "js_object option"

record axios_error =
  response :: "http_response option"

datatype 'a outcome = Resolved 'a | Rejected axios_error

definition err_message :: "axios_error \<Rightarrow> js_string option" where
  "err_message err =
     (case response err of
        None \<Rightarrow> None
      | Some r \<Rightarrow> (case data r of None \<Rightarrow> None | Some d \<Rightarrow> d (js ''message'')))"

definition API_BASE_URL :: "js_string option \<Rightarrow> js_string" where
  "API_BASE_URL env = js_or env (js ''http://localhost:5000/api'')"

section \<open>Client: the request interceptor\<close>

text \<open>
  \<open>localStorage\<close> maps keys to strings; \<open>getItem\<close> of a missing key is \<open>null\<close>.
  \<open>if (token)\<close> holds for a non-empty string only.
\<close>

type_synonym storage = "js_string \<rightharpoonup> js_string"

definition getItem :: "storage \<Rightarrow> js_string \<Rightarrow> js_string option" where
  "getItem st k = st k"

definition interceptor :: "storage \<Rightarrow> config \<Rightarrow> config" where
  "interceptor localStorage cfg =
     (case getItem localStorage (js ''token'') of
        None \<Rightarrow> cfg
      | Some token \<Rightarrow>
          if token = [] then cfg
          else cfg\<lparr>headers := (headers cfg)(js ''Authorization'' \<mapsto> js ''Bearer '' @ token)\<rparr>)"

text \<open>
  \<open>axios.interceptors.request.use\<close> stands in the body of \<open>App\<close>, so every render
  registers the interceptor once more; a request made after \<open>n\<close> renders passes through
  \<open>n\<close> copies of it. The result is the configuration axios goes on with; how axios and
  the browser write its headers on the wire is library code and not modelled.
\<close>

definition interceptors :: "nat \<Rightarrow> storage \<Rightarrow> config \<Rightarrow> config" where
  "interceptors n localStorage cfg = ((interceptor localStorage) ^^ n) cfg"

text \<open>The three calls of the component, as axios builds them: no header of the caller's.\<close>

definition axios_get :: "js_string \<Rightarrow> config" where
  "axios_get u = \<lparr>req_method = GET, url = u, body = None, headers = Map.empty\<rparr>"

definition axios_post :: "js_string \<Rightarrow> js_object \<Rightarrow> config" where
  "axios_post u d = \<lparr>req_method = POST, url = u, body = Some d, headers = Map.empty\<rparr>"

definition axios_delete :: "js_string \<Rightarrow> config" where
  "axios_delete u = \<lparr>req_method = DELETE, url = u, body = None, headers = Map.empty\<rparr>"

section \<open>Client: the handlers\<close>

text \<open>
  An async handler runs up to its \<open>await\<close>, and resumes when the request has settled.
  The part before the \<open>await\<close> gives the state it leaves and the request it issues; the
  part after it takes the render \<open>c\<close> the handler was created in (whose \<open>books\<close> it
  reads), the outcome of the request and the state \<open>s\<close> the setters write to.
  \<open>api\<close> is the value of \<open>API_BASE_URL\<close>.
\<close>

subsection \<open>fetchBooks\<close>

definition fetchBooks_begin :: "js_string \<Rightarrow> app_state \<Rightarrow> app_state \<times> config" where
  "fetchBooks_begin api s = (s\<lparr>loading := True\<rparr>, axios_get (api @ js ''/books''))"

definition fetchBooks_end :: "js_object list outcome \<Rightarrow> app_state \<Rightarrow> app_state" where
  "fetchBooks_end r s =
     (case r of
        Resolved d \<Rightarrow> s\<lparr>books := d, error := [], loading := False\<rparr>
      | Rejected err \<Rightarrow>
          s\<lparr>error := js_or (err_message err) (js ''Failed to load books''), loading := False\<rparr>)"

subsection \<open>handleInputChange\<close>

text \<open>A handler with no \<open>await\<close>: the state it leaves and the requests it issues.\<close>

definition handleInputChange :: "js_string \<Rightarrow> js_string \<Rightarrow> app_state \<Rightarrow> app_state \<times> config list" where
  "handleInputChange name v s = (s\<lparr>newBook := (newBook s)(name \<mapsto> v)\<rparr>, [])"

subsection \<open>handleAddBook\<close>

text \<open>
  \<open>newBook.title.trim()\<close> throws a TypeError when the property is undefined; it stands
  before the \<open>try\<close>, so the handler ends there with no setter called. \<open>||\<close> does not
  evaluate its right operand when the left one holds.
\<close>

datatype submit = TypeError | Refused app_state | Sent app_state config

definition handleAddBook_begin :: "js_string \<Rightarrow> app_state \<Rightarrow> submit" where
  "handleAddBook_begin api s =
     (case newBook s (js ''title'') of
        None \<Rightarrow> TypeError
      | Some t \<Rightarrow>
          if trim t = [] then Refused (s\<lparr>error := js ''Title and Author are required fields''\<rparr>)
          else (case newBook s (js ''author'') of
                  None \<Rightarrow> TypeError
                | Some a \<Rightarrow>
                    if trim a = []
                    then Refused (s\<lparr>error := js ''Title and Author are required fields''\<rparr>)
                    else Sent (s\<lparr>loading := True\<rparr>) (axios_post (api @ js ''/books'') (newBook s))))"

definition handleAddBook_end :: "app_state \<Rightarrow> js_object outcome \<Rightarrow> app_state \<Rightarrow> app_state" where
  "handleAddBook_end c r s =
     (case r of
        Resolved d \<Rightarrow>
          s\<lparr>books := books c @ [d], newBook := emptyBook, error := [], loading := False\<rparr>
      | Rejected err \<Rightarrow>
          s\<lparr>error := js_or (err_message err) (js ''Failed to add book''), loading := False\<rparr>)"

subsection \<open>handleDeleteBook\<close>

text \<open>
  The argument \<open>id\<close> (here \<open>id'\<close>) is the \<open>_id\<close> of a listed book, undefined when the
  record has none.
  \<open>book._id !== id\<close> is strict inequality of two values that are a string or undefined.
\<close>

definition handleDeleteBook_begin ::
    "js_string \<Rightarrow> js_string option \<Rightarrow> app_state \<Rightarrow> app_state \<times> config" where
  "handleDeleteBook_begin api id' s =
     (s\<lparr>loading := True\<rparr>, axios_delete (api @ js ''/books/'' @ template id'))"

definition handleDeleteBook_end ::
    "app_state \<Rightarrow> js_string option \<Rightarrow> unit outcome \<Rightarrow> app_state \<Rightarrow> app_state" where
  "handleDeleteBook_end c id' r s =
     (case r of
        Resolved _ \<Rightarrow>
          s\<lparr>books := filter (\<lambda>book. book (js ''_id'') \<noteq> id') (books c), error := [],
            loading := False\<rparr>
      | Rejected err \<Rightarrow>
          s\<lparr>error := js_or (err_message err) (js ''Failed to delete book''), loading := False\<rparr>)"

subsection \<open>The draft of a state the component reaches\<close>

text \<open>
  \<open>title\<close> and \<open>author\<close> are strings in the first draft, and no handler removes a
  property: \<open>newBook.title.trim()\<close> does not throw.
\<close>

definition draft_fields :: "app_state \<Rightarrow> bool" where
  "draft_fields s \<longleftrightarrow> newBook s (js ''title'') \<noteq> None \<and> newBook s (js ''author'') \<noteq> None"

section \<open>Server: the routes of the books resource\<close>

text \<open>
  Modelled from the spec: the records of the document store. \<open>server.js\<close> mounts
  \<open>./routes/books\<close> at \<open>/api/books\<close>; neither the routes nor the schema are among
  the sources. The spec's Book has an identifier assigned by the store, a required title
  and author, and an optional description.
\<close>

record Book =
  book_id :: js_string
  title :: js_string
  author :: js_string
  description :: "js_string option"

text \<open>
  Modelled from the spec: a response of the API, its status code, the \<open>message\<close> of an
  error body \<open>{message: string}\<close>, and the record a create returns.
\<close>

record reply =
  status :: nat
  message :: "js_string option"
  created :: "Book option"

text \<open>
  Modelled from the spec: a required field is missing when the body does not have it, or
  has it empty or whitespace-only.
\<close>

definition missing :: "js_string option \<Rightarrow> bool" where
  "missing v = (case v of None \<Rightarrow> True | Some x \<Rightarrow> trim x = [])"

text \<open>
  Modelled from the spec: \<open>POST /api/books\<close> with body \<open>{title, author, description?}\<close>
  answers 400 with a message when a required field is missing and leaves the store as it
  is; otherwise it inserts the record under the identifier \<open>fresh\<close> the store assigns
  and answers 201 with the record. The text of the message is not fixed by the spec.
\<close>

definition create_route :: "js_string \<Rightarrow> js_object \<Rightarrow> Book list \<Rightarrow> Book list \<times> reply" where
  "create_route fresh b st =
     (case (b (js ''title''), b (js ''author'')) of
        (Some t, Some a) \<Rightarrow>
          if trim t = [] \<or> trim a = []
          then (st, \<lparr>status = 400, message = Some (js ''Title and author are required''),
                      created = None\<rparr>)
          else (st @ [\<lparr>book_id = fresh, title = t, author = a,
                         description = b (js ''description'')\<rparr>],
                \<lparr>status = 201, message = None,
                  created = Some \<lparr>book_id = fresh, title = t, author = a,
                                   description = b (js ''description'')\<rparr>\<rparr>)
      | _ \<Rightarrow> (st, \<lparr>status = 400, message = Some (js ''Title and author are required''),
                    created = None\<rparr>))"

text \<open>
  Modelled from the spec: \<open>DELETE /api/books/:id\<close> answers 404 with a message and leaves
  the store as it is when no record has the identifier; otherwise it removes the record
  and answers 200.
\<close>

definition delete_route :: "js_string \<Rightarrow> Book list \<Rightarrow> Book list \<times> reply" where
  "delete_route i st =
     (if i \<in> set (map book_id st)
      then (filter (\<lambda>b. book_id b \<noteq> i) st, \<lparr>status = 200, message = None, created = None\<rparr>)
      else (st, \<lparr>status = 404, message = Some (js ''Book not found''), created = None\<rparr>))"

section \<open>Example values\<close>

definition blank_draft :: app_state where
  "blank_draft =
     initial_state\<lparr>newBook := emptyBook(js ''title'' \<mapsto> js ''   '', js ''author'' \<mapsto> js ''Herbert'')\<rparr>"

definition dune_draft :: app_state where
  "dune_draft =
     initial_state\<lparr>newBook := emptyBook(js ''title'' \<mapsto> js '' Dune '', js ''author'' \<mapsto> js ''Herbert'')\<rparr>"

definition dune :: js_object where
  "dune = [js ''_id'' \<mapsto> js ''1'', js ''title'' \<mapsto> js '' Dune '', js ''author'' \<mapsto> js ''Herbert'']"

definition emma :: js_object where
  "emma = [js ''_id'' \<mapsto> js ''2'', js ''title'' \<mapsto> js ''Emma'', js ''author'' \<mapsto> js ''Austen'']"

definition two_books :: app_state where
  "two_books = initial_state\<lparr>books := [dune, emma], error := js ''old''\<rparr>"

definition no_response :: axios_error where
  "no_response = \<lparr>response = None\<rparr>"

definition with_message :: "js_string \<Rightarrow> axios_error" where
  "with_message m = \<lparr>response = Some \<lparr>data = Some [js ''message'' \<mapsto> m]\<rparr>\<rparr>"




definition shelf :: "Book list" where
  "shelf = [\<lparr>book_id = js ''1'', title = js ''Dune'', author = js ''Herbert'', description = None\<rparr>]"

definition no_title :: js_object where
  "no_title = [js ''author'' \<mapsto> js ''X'']"

definition empty_title :: js_object where
  "empty_title = [js ''title'' \<mapsto> [], js ''author'' \<mapsto> js ''X'']"

section \<open>Strings\<close>

lemma dropWhile_all_Nil:
  assumes "\<forall>x\<in>set (dropWhile P xs). P x"
  shows "dropWhile P xs = []"
proof (rule ccontr)
  assume ne: "dropWhile P xs \<noteq> []"
  then have "\<not> P (hd (dropWhile P xs))" by (rule hd_dropWhile)
  moreover from ne have "hd (dropWhile P xs) \<in> set (dropWhile P xs)" by simp
  ultimately show False using assms by blast
qed

text \<open>A string trims to the empty string exactly when it has whitespace only.\<close>

lemma trim_Nil_iff: "trim x = [] \<longleftrightarrow> (\<forall>c\<in>set x. isWhiteSpace c)"
proof
  assume "trim x = []"
  then have "\<forall>c\<in>set (dropWhile isWhiteSpace x). isWhiteSpace c"
    by (simp add: trim_def dropWhile_eq_Nil_conv)
  then have "dropWhile isWhiteSpace x = []" by (rule dropWhile_all_Nil)
  then show "\<forall>c\<in>set x. isWhiteSpace c" by (simp add: dropWhile_eq_Nil_conv)
next
  assume "\<forall>c\<in>set x. isWhiteSpace c"
  then have "dropWhile isWhiteSpace x = []" by (simp add: dropWhile_eq_Nil_conv)
  then show "trim x = []" by (simp only: trim_def rev.simps dropWhile.simps)
qed

lemma js_or_nonempty: "b \<noteq> [] \<Longrightarrow> js_or a b \<noteq> []"
  by (simp add: js_or_def split: option.splits)

lemma js_or_truthy: "a = Some m \<Longrightarrow> m \<noteq> [] \<Longrightarrow> js_or a b = m"
  by (simp add: js_or_def)

lemma js_or_falsy: "a = None \<or> a = Some [] \<Longrightarrow> js_or a b = b"
  by (auto simp: js_or_def)

section \<open>The interceptor\<close>



lemma interceptor_body: "body (interceptor st cfg) = body cfg"
  by (simp add: interceptor_def split: option.splits)

lemma interceptors_body: "body (interceptors n st cfg) = body cfg"
  by (induction n) (simp_all add: interceptors_def interceptor_body)

section \<open>The draft keeps its fields\<close>

lemma draft_fields_initial: "draft_fields initial_state"
  by (simp add: draft_fields_def initial_state_def emptyBook_def js_def)

lemma draft_fields_handleInputChange:
  "draft_fields s \<Longrightarrow> draft_fields (fst (handleInputChange name v s))"
  by (simp add: draft_fields_def handleInputChange_def)

lemma draft_fields_fetchBooks:
  "draft_fields s \<Longrightarrow> draft_fields (fst (fetchBooks_begin api s)) \<and> draft_fields (fetchBooks_end r s)"
  by (simp add: draft_fields_def fetchBooks_begin_def fetchBooks_end_def split: outcome.splits)

lemma draft_fields_handleAddBook_end:
  "draft_fields s \<Longrightarrow> draft_fields (handleAddBook_end c r s)"
  by (simp add: draft_fields_def handleAddBook_end_def emptyBook_def js_def split: outcome.splits)

lemma draft_fields_handleAddBook_begin:
  "draft_fields s \<Longrightarrow> handleAddBook_begin api s \<noteq> TypeError \<and>
     (\<forall>s1. handleAddBook_begin api s = Refused s1 \<longrightarrow> draft_fields s1) \<and>
     (\<forall>s1 req. handleAddBook_begin api s = Sent s1 req \<longrightarrow> draft_fields s1)"
  by (auto simp: draft_fields_def handleAddBook_begin_def split: option.splits if_splits)

lemma draft_fields_handleDeleteBook:
  "draft_fields s \<Longrightarrow> draft_fields (fst (handleDeleteBook_begin api i s)) \<and>
     draft_fields (handleDeleteBook_end c i r s)"
  by (simp add: draft_fields_def handleDeleteBook_begin_def handleDeleteBook_end_def
      split: outcome.splits)

section \<open>Editing the draft\<close>

text \<open>
  C6. Whatever the state, the field name and the value of the input event,
  \<open>handleInputChange\<close> sets the named field of the draft to the value, leaves every other
  field of the draft, \<open>books\<close>, \<open>loading\<close> and \<open>error\<close> as they were, and issues no
  request. It holds for every name, so for \<open>title\<close>, \<open>author\<close> and \<open>description\<close>.
\<close>

theorem handleInputChange_frame:
  "newBook (fst (handleInputChange name v s)) name = Some v \<and>
   (\<forall>k. k \<noteq> name \<longrightarrow> newBook (fst (handleInputChange name v s)) k = newBook s k) \<and>
   books (fst (handleInputChange name v s)) = books s \<and>
   loading (fst (handleInputChange name v s)) = loading s \<and>
   error (fst (handleInputChange name v s)) = error s \<and>
   snd (handleInputChange name v s) = []"
  by (simp add: handleInputChange_def)

theorem handleInputChange_frame_witness:
  "newBook (fst (handleInputChange (js ''title'') (js ''Dune'') initial_state)) (js ''title'')
     = Some (js ''Dune'') \<and>
   newBook (fst (handleInputChange (js ''title'') (js ''Dune'') initial_state)) (js ''author'')
     = Some [] \<and>
   newBook (fst (handleInputChange (js ''title'') (js ''Dune'') initial_state)) (js ''description'')
     = Some [] \<and>
   books (fst (handleInputChange (js ''title'') (js ''Dune'') initial_state)) = [] \<and>
   \<not> loading (fst (handleInputChange (js ''title'') (js ''Dune'') initial_state)) \<and>
   error (fst (handleInputChange (js ''title'') (js ''Dune'') initial_state)) = [] \<and>
   snd (handleInputChange (js ''title'') (js ''Dune'') initial_state) = []"
  using handleInputChange_frame [of "js ''title''" "js ''Dune''" initial_state]
  by (simp add: initial_state_def emptyBook_def js_def)

section \<open>Submitting the draft\<close>

text \<open>
  C2. When the title or the author of the draft trims to the empty string,
  \<open>handleAddBook\<close> ends before the request: it sets \<open>error\<close> to a non-empty text, issues
  no request (\<open>Refused\<close> carries none), and leaves \<open>books\<close>, the draft and \<open>loading\<close>
  as they were.
\<close>

theorem handleAddBook_refuses_blank:
  assumes "newBook s (js ''title'') = Some t" and "newBook s (js ''author'') = Some a"
    and "trim t = [] \<or> trim a = []"
  shows "\<exists>s'. handleAddBook_begin api s = Refused s' \<and> error s' \<noteq> [] \<and>
           books s' = books s \<and> newBook s' = newBook s \<and> loading s' = loading s"
  using assms by (auto simp: handleAddBook_begin_def js_def)

theorem handleAddBook_refuses_blank_witness:
  "\<exists>s'. handleAddBook_begin (js ''/api'') blank_draft = Refused s' \<and> error s' \<noteq> [] \<and>
         books s' = [] \<and> newBook s' = newBook blank_draft \<and> \<not> loading s'"
proof -
  have t: "newBook blank_draft (js ''title'') = Some (js ''   '')"
    by (simp add: blank_draft_def js_def)
  have a: "newBook blank_draft (js ''author'') = Some (js ''Herbert'')"
    by (simp add: blank_draft_def js_def)
  have b: "trim (js ''   '') = [] \<or> trim (js ''Herbert'') = []"
    by (simp add: trim_def js_def isWhiteSpace_def)
  show ?thesis
    using handleAddBook_refuses_blank [OF t a b, of "js ''/api''"]
    by (simp add: blank_draft_def initial_state_def)
qed

lemma dune_draft_title: "newBook dune_draft (js ''title'') = Some (js '' Dune '')"
  by (simp add: dune_draft_def js_def)

lemma dune_draft_author: "newBook dune_draft (js ''author'') = Some (js ''Herbert'')"
  by (simp add: dune_draft_def js_def)

lemma trim_Dune: "trim (js '' Dune '') = js ''Dune''"
  by (simp add: trim_def js_def isWhiteSpace_def)

lemma trim_Herbert: "trim (js ''Herbert'') = js ''Herbert''"
  by (simp add: trim_def js_def isWhiteSpace_def)

text \<open>
  C3. When the title and the author of the draft both trim to a non-empty string,
  \<open>handleAddBook\<close> issues the request. If it succeeds with the record \<open>d\<close>, \<open>books\<close>
  becomes the books of before with \<open>d\<close> appended, the draft becomes the empty draft and
  \<open>error\<close> is cleared. If it fails, \<open>error\<close> is set to a non-empty text, and \<open>books\<close>
  and the draft are as before.
\<close>

theorem handleAddBook_settles:
  assumes "newBook s (js ''title'') = Some t" and "newBook s (js ''author'') = Some a"
    and "trim t \<noteq> []" and "trim a \<noteq> []"
  shows "\<exists>s1 req. handleAddBook_begin api s = Sent s1 req \<and>
           books (handleAddBook_end s (Resolved d) s1) = books s @ [d] \<and>
           newBook (handleAddBook_end s (Resolved d) s1) = emptyBook \<and>
           error (handleAddBook_end s (Resolved d) s1) = [] \<and>
           error (handleAddBook_end s (Rejected err) s1) \<noteq> [] \<and>
           books (handleAddBook_end s (Rejected err) s1) = books s \<and>
           newBook (handleAddBook_end s (Rejected err) s1) = newBook s"
  using assms
  by (simp add: handleAddBook_begin_def handleAddBook_end_def js_or_nonempty js_def)

theorem handleAddBook_settles_witness:
  "\<exists>s1 req. handleAddBook_begin (js ''/api'') dune_draft = Sent s1 req \<and>
     books (handleAddBook_end dune_draft (Resolved dune) s1) = [dune] \<and>
     newBook (handleAddBook_end dune_draft (Resolved dune) s1) (js ''title'') = Some [] \<and>
     error (handleAddBook_end dune_draft (Resolved dune) s1) = [] \<and>
     error (handleAddBook_end dune_draft (Rejected no_response) s1) \<noteq> [] \<and>
     books (handleAddBook_end dune_draft (Rejected no_response) s1) = [] \<and>
     newBook (handleAddBook_end dune_draft (Rejected no_response) s1) (js ''title'')
       = Some (js '' Dune '')"
proof -
  have t: "trim (js '' Dune '') \<noteq> []" unfolding trim_Dune by (simp add: js_def)
  have a: "trim (js ''Herbert'') \<noteq> []" unfolding trim_Herbert by (simp add: js_def)
  have b: "books dune_draft = []" by (simp add: dune_draft_def initial_state_def)
  have e: "emptyBook (js ''title'') = Some []" by (simp add: emptyBook_def js_def)
  show ?thesis
    using handleAddBook_settles [OF dune_draft_title dune_draft_author t a,
        of "js ''/api''" dune no_response]
    by (auto simp: b e dune_draft_title)
qed

text \<open>
  C10. When the title and the author of the draft both trim to a non-empty string, the
  guard passes and the body of the request is the draft itself, whitespace included, also
  after the interceptors: \<open>trim\<close> is used for the check only.
\<close>

theorem handleAddBook_body_verbatim:
  assumes "newBook s (js ''title'') = Some t" and "newBook s (js ''author'') = Some a"
    and "trim t \<noteq> []" and "trim a \<noteq> []"
  shows "\<exists>s1 req. handleAddBook_begin api s = Sent s1 req \<and>
           body req = Some (newBook s) \<and> body (interceptors n st req) = Some (newBook s)"
  using assms
  by (simp add: handleAddBook_begin_def axios_post_def interceptors_body)

theorem handleAddBook_body_verbatim_witness:
  "trim (js '' Dune '') \<noteq> js '' Dune '' \<and>
   (\<exists>s1 req d. handleAddBook_begin (js ''/api'') dune_draft = Sent s1 req \<and>
      body (interceptors 1 Map.empty req) = Some d \<and> d (js ''title'') = Some (js '' Dune '') \<and>
      d (js ''author'') = Some (js ''Herbert''))"
proof -
  have t: "trim (js '' Dune '') \<noteq> []" unfolding trim_Dune by (simp add: js_def)
  have a: "trim (js ''Herbert'') \<noteq> []" unfolding trim_Herbert by (simp add: js_def)
  have n: "trim (js '' Dune '') \<noteq> js '' Dune ''" unfolding trim_Dune by (simp add: js_def)
  show ?thesis
    using handleAddBook_body_verbatim [OF dune_draft_title dune_draft_author t a,
        of "js ''/api''" 1 Map.empty] n
    by (auto simp: dune_draft_title dune_draft_author)
qed

section \<open>Deleting a book\<close>

text \<open>
  C4. When the delete request for \<open>id\<close> succeeds, \<open>books\<close> becomes the books of before
  without the records whose \<open>_id\<close> is \<open>id\<close>, in the same order; when it fails,
  \<open>error\<close> is set to a non-empty text and \<open>books\<close> is as before.
\<close>

theorem handleDeleteBook_settles:
  "books (handleDeleteBook_end s i (Resolved u) (fst (handleDeleteBook_begin api i s)))
     = filter (\<lambda>book. book (js ''_id'') \<noteq> i) (books s) \<and>
   (\<forall>book \<in> set (books (handleDeleteBook_end s i (Resolved u) (fst (handleDeleteBook_begin api i s)))).
      book (js ''_id'') \<noteq> i) \<and>
   books (handleDeleteBook_end s i (Rejected err) (fst (handleDeleteBook_begin api i s)))
     = books s \<and>
   error (handleDeleteBook_end s i (Rejected err) (fst (handleDeleteBook_begin api i s))) \<noteq> []"
  by (simp add: handleDeleteBook_begin_def handleDeleteBook_end_def js_or_nonempty js_def)

theorem handleDeleteBook_settles_witness:
  "books (handleDeleteBook_end two_books (Some (js ''1'')) (Resolved ())
      (fst (handleDeleteBook_begin (js ''/api'') (Some (js ''1'')) two_books))) = [emma] \<and>
   books (handleDeleteBook_end two_books (Some (js ''1'')) (Rejected no_response)
      (fst (handleDeleteBook_begin (js ''/api'') (Some (js ''1'')) two_books))) = [dune, emma] \<and>
   error (handleDeleteBook_end two_books (Some (js ''1'')) (Rejected no_response)
      (fst (handleDeleteBook_begin (js ''/api'') (Some (js ''1'')) two_books))) \<noteq> []"
proof -
  have b: "books two_books = [dune, emma]" by (simp add: two_books_def)
  have d: "dune (js ''_id'') = Some (js ''1'')" by (simp add: dune_def js_def)
  have e: "emma (js ''_id'') \<noteq> Some (js ''1'')" by (simp add: emma_def js_def)
  show ?thesis
    using handleDeleteBook_settles [of two_books "Some (js ''1'')" "()" "js ''/api''" no_response]
    by (simp add: b d e)
qed

section \<open>The error message\<close>

lemma err_message_with_message: "err_message (with_message m) = Some m"
  by (simp add: err_message_def with_message_def)

lemma err_message_no_response: "err_message no_response = None"
  by (simp add: err_message_def no_response_def)

text \<open>
  C5, as the claim states it, fails where the error response has a \<open>message\<close> that is
  the empty string: the field is present, and \<open>error\<close> is not set to it but to the
  fallback text.
\<close>

theorem empty_message_counterexample:
  "err_message (with_message []) = Some [] \<and>
   error (fetchBooks_end (Rejected (with_message [])) initial_state) \<noteq> []"
  by (simp add: err_message_with_message fetchBooks_end_def js_or_def js_def)

text \<open>
  C5, amended. A failing load, create or delete sets \<open>error\<close>, whatever it was before,
  to the \<open>message\<close> of the error response when that is present and not the empty string,
  and otherwise (no response, no data, no message, or an empty message) to the fallback
  text of the operation, which is not empty. A successful load, create or delete sets
  \<open>error\<close> to the empty string.
\<close>

theorem error_set_or_cleared:
  "(\<forall>m. err_message err = Some m \<and> m \<noteq> [] \<longrightarrow>
      error (fetchBooks_end (Rejected err) s) = m \<and>
      error (handleAddBook_end c (Rejected err) s) = m \<and>
      error (handleDeleteBook_end c i (Rejected err) s) = m) \<and>
   (err_message err = None \<or> err_message err = Some [] \<longrightarrow>
      error (fetchBooks_end (Rejected err) s) = js ''Failed to load books'' \<and>
      error (handleAddBook_end c (Rejected err) s) = js ''Failed to add book'' \<and>
      error (handleDeleteBook_end c i (Rejected err) s) = js ''Failed to delete book'') \<and>
   js ''Failed to load books'' \<noteq> [] \<and> js ''Failed to add book'' \<noteq> [] \<and>
   js ''Failed to delete book'' \<noteq> [] \<and>
   error (fetchBooks_end (Resolved bs) s) = [] \<and>
   error (handleAddBook_end c (Resolved d) s) = [] \<and>
   error (handleDeleteBook_end c i (Resolved u) s) = []"
proof -
  have "js_or (err_message err) b = m" if "err_message err = Some m" "m \<noteq> []" for m b
    using that by (rule js_or_truthy)
  moreover have "js_or (err_message err) b = b"
    if "err_message err = None \<or> err_message err = Some []" for b
    using that by (rule js_or_falsy)
  ultimately show ?thesis
    by (simp add: fetchBooks_end_def handleAddBook_end_def handleDeleteBook_end_def)
      (simp add: js_def)
qed

theorem error_set_or_cleared_witness:
  "error (fetchBooks_end (Rejected (with_message (js ''Server down''))) two_books)
     = js ''Server down'' \<and>
   error (handleAddBook_end two_books (Rejected (with_message (js ''Server down''))) two_books)
     = js ''Server down'' \<and>
   error (handleDeleteBook_end two_books None (Rejected (with_message (js ''Server down''))) two_books)
     = js ''Server down'' \<and>
   error (fetchBooks_end (Rejected no_response) two_books) = js ''Failed to load books'' \<and>
   error (handleAddBook_end two_books (Rejected no_response) two_books) = js ''Failed to add book'' \<and>
   error (handleDeleteBook_end two_books None (Rejected no_response) two_books)
     = js ''Failed to delete book'' \<and>
   error two_books = js ''old'' \<and>
   error (fetchBooks_end (Resolved []) two_books) = []"
proof -
  have m: "js ''Server down'' \<noteq> []" by (simp add: js_def)
  have o: "error two_books = js ''old''" by (simp add: two_books_def)
  show ?thesis
    using error_set_or_cleared [of "with_message (js ''Server down'')" two_books two_books None]
      error_set_or_cleared [of no_response two_books two_books None "[]"]
    by (simp add: err_message_with_message err_message_no_response m o)
qed

section \<open>The Authorization header\<close>




section \<open>The server routes\<close>

text \<open>
  C1. A create request whose body has no title or no author, or has one of them empty or
  whitespace-only, is answered with a status from 400 to 499 and a non-empty message, and
  the store is left as it was.
\<close>

theorem create_route_rejects_missing:
  assumes "missing (b (js ''title'')) \<or> missing (b (js ''author''))"
  shows "fst (create_route fresh b st) = st \<and>
         400 \<le> status (snd (create_route fresh b st)) \<and>
         status (snd (create_route fresh b st)) < 500 \<and>
         (\<exists>m. message (snd (create_route fresh b st)) = Some m \<and> m \<noteq> [])"
  using assms
  by (auto simp: create_route_def missing_def js_def split: option.splits)

theorem create_route_rejects_missing_witness:
  "fst (create_route (js ''2'') no_title shelf) = shelf \<and>
   status (snd (create_route (js ''2'') no_title shelf)) = 400 \<and>
   fst (create_route (js ''2'') empty_title shelf) = shelf \<and>
   (\<exists>m. message (snd (create_route (js ''2'') empty_title shelf)) = Some m \<and> m \<noteq> [])"
proof -
  have a: "missing (no_title (js ''title'')) \<or> missing (no_title (js ''author''))"
    by (simp add: missing_def no_title_def js_def)
  have b: "missing (empty_title (js ''title'')) \<or> missing (empty_title (js ''author''))"
    by (simp add: missing_def empty_title_def trim_def js_def)
  have c: "status (snd (create_route (js ''2'') no_title shelf)) = 400"
    by (simp add: create_route_def no_title_def js_def)
  show ?thesis
    using create_route_rejects_missing [OF a, of "js ''2''" shelf]
      create_route_rejects_missing [OF b, of "js ''2''" shelf] c
    by simp
qed

text \<open>
  C8. Deleting an identifier that no record of the store has leaves the store as it was
  and answers 404; deleting an identifier of the store answers 200 or 204, and no record
  has the identifier afterwards.
\<close>

theorem delete_route_not_found:
  "(i \<notin> set (map book_id st) \<longrightarrow>
      fst (delete_route i st) = st \<and> status (snd (delete_route i st)) = 404) \<and>
   (i \<in> set (map book_id st) \<longrightarrow>
      (status (snd (delete_route i st)) = 200 \<or> status (snd (delete_route i st)) = 204) \<and>
      i \<notin> set (map book_id (fst (delete_route i st))))"
  by (auto simp: delete_route_def)

theorem delete_route_not_found_witness:
  "fst (delete_route (js ''7'') shelf) = shelf \<and>
   status (snd (delete_route (js ''7'') shelf)) = 404 \<and>
   status (snd (delete_route (js ''1'') shelf)) = 200 \<and>
   fst (delete_route (js ''1'') shelf) = []"
proof -
  have a: "js ''7'' \<notin> set (map book_id shelf)" by (simp add: shelf_def js_def)
  have b: "js ''1'' \<in> set (map book_id shelf)" by (simp add: shelf_def)
  have c: "fst (delete_route (js ''1'') shelf) = []" by (simp add: delete_route_def shelf_def)
  have d: "status (snd (delete_route (js ''1'') shelf)) \<noteq> 204"
    by (simp add: delete_route_def shelf_def)
  show ?thesis
    using delete_route_not_found [of "js ''7''" shelf] delete_route_not_found [of "js ''1''" shelf]
      a b c d
    by simp
qed

section \<open>The pending flag\<close>

lemma begin_dune:
  "handleAddBook_begin api dune_draft
     = Sent (dune_draft\<lparr>loading := True\<rparr>) (axios_post (api @ js ''/books'') (newBook dune_draft))"
proof -
  have t: "trim (js '' Dune '') \<noteq> []" unfolding trim_Dune by (simp add: js_def)
  have a: "trim (js ''Herbert'') \<noteq> []" unfolding trim_Herbert by (simp add: js_def)
  show ?thesis
    by (simp add: handleAddBook_begin_def dune_draft_title dune_draft_author t a)
qed

text \<open>
  C9. Each of the three operations sets \<open>loading\<close> to true before its request and to
  false when the request has settled, whether it succeeded or failed and whatever the
  state then is. A submit that is refused issues no request and leaves \<open>loading\<close> as it
  was.
\<close>

theorem loading_during_request:
  "loading (fst (fetchBooks_begin api s)) \<and> \<not> loading (fetchBooks_end r1 s') \<and>
   (\<forall>s1 req. handleAddBook_begin api s = Sent s1 req \<longrightarrow> loading s1) \<and>
   (\<forall>s1. handleAddBook_begin api s = Refused s1 \<longrightarrow> loading s1 = loading s) \<and>
   \<not> loading (handleAddBook_end c r2 s') \<and>
   loading (fst (handleDeleteBook_begin api i s)) \<and> \<not> loading (handleDeleteBook_end c i r3 s')"
  by (auto simp: fetchBooks_begin_def fetchBooks_end_def handleAddBook_begin_def
      handleAddBook_end_def handleDeleteBook_begin_def handleDeleteBook_end_def
      split: outcome.splits option.splits if_splits)

theorem loading_during_request_witness:
  "loading (fst (fetchBooks_begin (js ''/api'') dune_draft)) \<and>
   \<not> loading (fetchBooks_end (Resolved [dune]) (dune_draft\<lparr>loading := True\<rparr>)) \<and>
   (\<exists>s1 req. handleAddBook_begin (js ''/api'') dune_draft = Sent s1 req \<and> loading s1 \<and>
      \<not> loading (handleAddBook_end dune_draft (Rejected no_response) s1)) \<and>
   loading (fst (handleDeleteBook_begin (js ''/api'') None dune_draft)) \<and>
   \<not> loading (handleDeleteBook_end dune_draft None (Resolved ()) (dune_draft\<lparr>loading := True\<rparr>))"
  using loading_during_request [of "js ''/api''" dune_draft "Resolved [dune]"
      "dune_draft\<lparr>loading := True\<rparr>" dune_draft "Rejected no_response" None "Resolved ()"]
  by (simp add: begin_dune)

end
